theory Spec2Isabelle
  imports Complex_Main "HOL-Library.AList" "HOL-Library.Multiset"
begin

section \<open>The weighted grade calculator of school_app.py\<close>

text \<open>
  The development embeds \<^verbatim>\<open>calculate_average_v3\<close> (school_app.py, lines 2389-2418) and the
  year-final aggregation that the gradebooks of \<^verbatim>\<open>teacher_dashboard\<close> (lines 2331-2343) and
  \<^verbatim>\<open>student_dashboard\<close> (lines 2512-2520) build on it.

  Numbers: the column \<^verbatim>\<open>grades.grade\<close> is \<^verbatim>\<open>REAL\<close>, so the Python values are floats; they are
  modelled as HOL reals with exact arithmetic. Weights are \<^verbatim>\<open>INTEGER NOT NULL\<close> and are
  modelled as \<open>int\<close>. Every Python division goes through \<open>py_truediv\<close>, which returns the
  error value where Python raises \<^verbatim>\<open>ZeroDivisionError\<close>.

  A real expression stands for the float expression with the same operations in the same
  order, which it matches up to the rounding of each operation. Two things follow. The
  properties below state a result as one such expression; none of them equates two sums
  whose terms are added in different orders, since float addition is not associative.
  And \<^verbatim>\<open>round(x, 2)\<close>, which is not continuous, is a relation here and not a function: it
  admits both neighbouring multiples of 1/100 of a value near a tie, where the float and
  the real may fall on different sides.
\<close>

subsection \<open>Data\<close>

text \<open>
  A grade row is what the queries select: \<^verbatim>\<open>g.grade\<close> (nullable), \<^verbatim>\<open>a.category_id\<close> (nullable)
  and \<^verbatim>\<open>a.period\<close> (nullable, default 1). A category row is
  \<^verbatim>\<open>{'id': 1, 'name': 'TPs', 'weight': 50}\<close>; its key \<^verbatim>\<open>id\<close> is the field \<open>id'\<close> here.
\<close>

record grade_row =
  grade :: "real option"
  category_id :: "int option"
  period :: "int option"

record category =
  id' :: int
  name :: string
  weight :: int

datatype py_error = ZeroDivisionError

text \<open>
  The dictionary \<^verbatim>\<open>cat_averages\<close> keeps insertion order and one entry per key; an assignment
  to a key that is present replaces the value in place. This is \<open>AList.update\<close> on an
  association list. The value \<open>None\<close> is Python's \<^verbatim>\<open>None\<close>, the marker for "no grades yet".
\<close>

type_synonym averages = "(string \<times> real option) list"

record loop_state =
  cat_averages :: averages
  total_weight_used :: int
  calculated_score :: real

subsection \<open>The calculator\<close>

definition py_truediv :: "real \<Rightarrow> real \<Rightarrow> py_error + real" where
  "py_truediv a b = (if b = 0 then Inl ZeroDivisionError else Inr (a / b))"

text \<open>\<^verbatim>\<open>[g['grade'] for g in grades if g['grade'] is not None]\<close>\<close>

definition valid_grades :: "grade_row list \<Rightarrow> real list" where
  "valid_grades grades = map (\<lambda>g. the (grade g)) (filter (\<lambda>g. grade g \<noteq> None) grades)"

text \<open>\<^verbatim>\<open>[g['grade'] for g in grades if g['category_id'] == cat['id'] and g['grade'] is not None]\<close>\<close>

definition c_grades :: "grade_row list \<Rightarrow> category \<Rightarrow> real list" where
  "c_grades grades cat =
     map (\<lambda>g. the (grade g))
       (filter (\<lambda>g. category_id g = Some (id' cat) \<and> grade g \<noteq> None) grades)"

text \<open>The body of \<^verbatim>\<open>for cat in categories\<close>, on the three variables the loop updates.\<close>

definition loop_body :: "grade_row list \<Rightarrow> category \<Rightarrow> loop_state \<Rightarrow> py_error + loop_state" where
  "loop_body grades cat s =
     (let cg = c_grades grades cat in
      if cg \<noteq> [] then
        (case py_truediv (sum_list cg) (real (length cg)) of
           Inl e \<Rightarrow> Inl e
         | Inr avg \<Rightarrow>
             Inr \<lparr>cat_averages = AList.update (name cat) (Some avg) (cat_averages s),
                  total_weight_used = total_weight_used s + weight cat,
                  calculated_score = calculated_score s + avg * real_of_int (weight cat)\<rparr>)
      else
        Inr (s\<lparr>cat_averages := AList.update (name cat) None (cat_averages s)\<rparr>))"

fun loop :: "grade_row list \<Rightarrow> category list \<Rightarrow> loop_state \<Rightarrow> py_error + loop_state" where
  "loop grades [] s = Inr s"
| "loop grades (cat # cats) s =
     (case loop_body grades cat s of
        Inl e \<Rightarrow> Inl e
      | Inr s' \<Rightarrow> loop grades cats s')"

definition calculate_average_v3 ::
  "grade_row list \<Rightarrow> category list \<Rightarrow> py_error + (real \<times> averages)" where
  "calculate_average_v3 grades categories =
     (if categories = [] then
        (let vg = valid_grades grades in
         if vg \<noteq> [] then
           (case py_truediv (sum_list vg) (real (length vg)) of
              Inl e \<Rightarrow> Inl e
            | Inr m \<Rightarrow> Inr (m, []))
         else Inr (0, []))
      else
        (case loop grades categories
                \<lparr>cat_averages = [], total_weight_used = 0, calculated_score = 0\<rparr> of
           Inl e \<Rightarrow> Inl e
         | Inr s \<Rightarrow>
             if total_weight_used s > 0 then
               (case py_truediv (calculated_score s) (real_of_int (total_weight_used s)) of
                  Inl e \<Rightarrow> Inl e
                | Inr final_score \<Rightarrow> Inr (final_score, cat_averages s))
             else Inr (0, cat_averages s)))"

subsection \<open>The year-final cell of the gradebooks\<close>

text \<open>
  \<^verbatim>\<open>round(x, 2)\<close> returns the multiple of 1/100 nearest to the float it is given. That float
  is the real \<open>x\<close> up to the rounding of the operations that computed it, so which of the
  two neighbours of \<open>x\<close> is returned is not a function of \<open>x\<close> near a tie. \<open>py_round2 x r\<close>
  says that \<open>r\<close> is a possible value of \<^verbatim>\<open>round(x, 2)\<close>: a multiple of 1/100 less than 1/100
  away from \<open>x\<close>.
\<close>

definition py_round2 :: "real \<Rightarrow> real \<Rightarrow> bool" where
  "py_round2 x r = (of_int \<lfloor>r * 100\<rfloor> = r * 100 \<and> \<bar>r - x\<bar> < 1 / 100)"

text \<open>\<^verbatim>\<open>[g for g in raw_grades if g['period'] == p]\<close>\<close>

definition p_grades :: "grade_row list \<Rightarrow> int \<Rightarrow> grade_row list" where
  "p_grades raw_grades p = filter (\<lambda>g. period g = Some p) raw_grades"

text \<open>
  The loop \<^verbatim>\<open>for p in range(1, num_p + 1)\<close> over the list of periods, with the list
  \<^verbatim>\<open>p_avgs\<close> it appends to.
\<close>

fun period_loop ::
  "grade_row list \<Rightarrow> category list \<Rightarrow> int list \<Rightarrow> real list \<Rightarrow> py_error + real list" where
  "period_loop raw_grades cats [] p_avgs = Inr p_avgs"
| "period_loop raw_grades cats (p # ps) p_avgs =
     (if p_grades raw_grades p \<noteq> [] then
        (case calculate_average_v3 (p_grades raw_grades p) cats of
           Inl e \<Rightarrow> Inl e
         | Inr (p_f, _) \<Rightarrow> period_loop raw_grades cats ps (p_avgs @ [p_f]))
      else period_loop raw_grades cats ps p_avgs)"

text \<open>
  The branch \<^verbatim>\<open>sel_p_mode == 0\<close> ("Year Final") of both gradebooks; \<open>sys\<close> is the class's
  \<^verbatim>\<open>evaluation_system\<close>. Because of \<^verbatim>\<open>round\<close> it is a relation between the inputs and the
  outcome \<open>cell_val\<close> (an error, or the value of the cell).
\<close>

definition year_final_cell ::
  "string \<Rightarrow> grade_row list \<Rightarrow> category list \<Rightarrow> py_error + real \<Rightarrow> bool" where
  "year_final_cell sys raw_grades cats cell_val =
     (let num_p = (if sys = ''semesters'' then 2 else 3 :: int) in
      case period_loop raw_grades cats [1 .. num_p] [] of
        Inl e \<Rightarrow> cell_val = Inl e
      | Inr p_avgs \<Rightarrow>
          if p_avgs \<noteq> [] then
            (case py_truediv (sum_list p_avgs) (real (length p_avgs)) of
               Inl e \<Rightarrow> cell_val = Inl e
             | Inr m \<Rightarrow> (case cell_val of Inl e \<Rightarrow> False | Inr r \<Rightarrow> py_round2 m r))
          else cell_val = Inr 0)"

subsection \<open>What the specification calls the parts of the result\<close>

text \<open>The arithmetic mean of a category's grades, and the entry the mapping gets for it.\<close>

definition category_mean :: "grade_row list \<Rightarrow> category \<Rightarrow> real" where
  "category_mean grades c = sum_list (c_grades grades c) / real (length (c_grades grades c))"

definition category_entry :: "grade_row list \<Rightarrow> category \<Rightarrow> real option" where
  "category_entry grades c =
     (if c_grades grades c \<noteq> [] then Some (category_mean grades c) else None)"

text \<open>The categories that have at least one matching non-null grade.\<close>

definition graded :: "grade_row list \<Rightarrow> category list \<Rightarrow> category list" where
  "graded grades cats = filter (\<lambda>c. c_grades grades c \<noteq> []) cats"

definition weighted_score :: "grade_row list \<Rightarrow> category list \<Rightarrow> real" where
  "weighted_score grades cats =
     (\<Sum>c\<leftarrow>graded grades cats. category_mean grades c * real_of_int (weight c))"

definition weight_sum :: "category list \<Rightarrow> int" where
  "weight_sum cats = (\<Sum>c\<leftarrow>cats. weight c)"

text \<open>
  The terms \<^verbatim>\<open>avg * cat['weight']\<close> that the loop adds to \<^verbatim>\<open>calculated_score\<close>, in the order
  in which it adds them.
\<close>

definition score_terms :: "grade_row list \<Rightarrow> category list \<Rightarrow> real list" where
  "score_terms grades cats =
     map (\<lambda>c. category_mean grades c * real_of_int (weight c)) (graded grades cats)"

text \<open>
  The mapping the loop has built after the categories \<open>cats\<close>, starting from \<open>m\<close>: one
  dictionary assignment per category, in the order of the list.
\<close>

definition recorded :: "grade_row list \<Rightarrow> category list \<Rightarrow> averages \<Rightarrow> averages" where
  "recorded grades cats m = fold (\<lambda>c. AList.update (name c) (category_entry grades c)) cats m"

section \<open>Properties\<close>

subsection \<open>The loop in closed form\<close>

lemma py_truediv_length:
  "xs \<noteq> [] \<Longrightarrow> py_truediv a (real (length xs)) = Inr (a / real (length xs))"
  by (simp add: py_truediv_def)

lemma loop_body_eq:
  "loop_body grades c s =
     Inr \<lparr>cat_averages = AList.update (name c) (category_entry grades c) (cat_averages s),
          total_weight_used = total_weight_used s + weight_sum (graded grades [c]),
          calculated_score = calculated_score s + weighted_score grades [c]\<rparr>"
  by (simp add: loop_body_def Let_def py_truediv_length category_entry_def category_mean_def
      graded_def weighted_score_def weight_sum_def)

lemma loop_eq:
  "loop grades cats s =
     Inr \<lparr>cat_averages = recorded grades cats (cat_averages s),
          total_weight_used = total_weight_used s + weight_sum (graded grades cats),
          calculated_score = calculated_score s + weighted_score grades cats\<rparr>"
proof (induction cats arbitrary: s)
  case Nil
  show ?case by (simp add: recorded_def graded_def weighted_score_def weight_sum_def)
next
  case (Cons c cats)
  show ?case
    by (simp add: loop_body_eq Cons.IH recorded_def graded_def weighted_score_def weight_sum_def)
qed

lemma calculate_average_v3_categories:
  "categories \<noteq> [] \<Longrightarrow>
   calculate_average_v3 grades categories =
     Inr (if 0 < weight_sum (graded grades categories)
          then weighted_score grades categories /
               real_of_int (weight_sum (graded grades categories))
          else 0,
          recorded grades categories [])"
  by (simp add: calculate_average_v3_def loop_eq py_truediv_def)

lemma calculate_average_v3_empty:
  "calculate_average_v3 grades [] =
     Inr (if valid_grades grades \<noteq> []
          then sum_list (valid_grades grades) / real (length (valid_grades grades))
          else 0, [])"
  by (simp add: calculate_average_v3_def Let_def py_truediv_length)

subsection \<open>The mapping\<close>

lemma map_of_recorded:
  "map_of (recorded grades cats m) =
     map_of (rev (map (\<lambda>c. (name c, category_entry grades c)) cats) @ m)"
proof (induction cats arbitrary: m)
  case Nil
  show ?case by (simp add: recorded_def)
next
  case (Cons c cats)
  have "recorded grades (c # cats) m =
        recorded grades cats (AList.update (name c) (category_entry grades c) m)"
    by (simp add: recorded_def)
  then show ?case
    by (simp add: Cons.IH update_conv' map_add_def fun_eq_iff split: option.splits)
qed

lemma distinct_recorded:
  "distinct (map fst m) \<Longrightarrow> distinct (map fst (recorded grades cats m))"
  by (induction cats arbitrary: m) (simp_all add: recorded_def distinct_update)

subsection \<open>Auxiliary facts\<close>

lemma set_update_subset: "set (AList.update k v al) \<subseteq> insert (k, v) (set al)"
  by (induction al) auto

lemma set_recorded_subset:
  "set (recorded grades cats m) \<subseteq> set m \<union> (\<lambda>c. (name c, category_entry grades c)) ` set cats"
proof (induction cats arbitrary: m)
  case Nil
  show ?case by (simp add: recorded_def)
next
  case (Cons c cats)
  have "recorded grades (c # cats) m =
        recorded grades cats (AList.update (name c) (category_entry grades c) m)"
    by (simp add: recorded_def)
  with Cons.IH [of "AList.update (name c) (category_entry grades c) m"]
    set_update_subset [of "name c" "category_entry grades c" m]
  show ?case by auto
qed

lemma keys_recorded:
  "fst ` set (recorded grades cats m) = fst ` set m \<union> name ` set cats"
proof -
  have "dom (map_of (recorded grades cats m)) = dom (map_of m) \<union> name ` set cats"
    by (simp add: map_of_recorded dom_map_of_conv_image_fst image_Un image_image Un_commute)
  then show ?thesis by (simp add: dom_map_of_conv_image_fst)
qed

lemma map_of_rev_last:
  "map_of (rev (map (\<lambda>c. (name c, f c)) cats)) n =
     (if n \<in> name ` set cats then Some (f (last (filter (\<lambda>c. name c = n) cats))) else None)"
  by (induction cats rule: rev_induct) auto

lemma lookup_recorded:
  "c \<in> set cats \<Longrightarrow>
   map_of (recorded grades cats []) (name c) =
     Some (category_entry grades (last (filter (\<lambda>c'. name c' = name c) cats)))"
  by (simp add: map_of_recorded map_of_rev_last)

lemma lookup_recorded_last:
  "name c \<notin> name ` set post \<Longrightarrow>
   map_of (recorded grades (pre @ c # post) []) (name c) = Some (category_entry grades c)"
proof -
  assume "name c \<notin> name ` set post"
  then have "filter (\<lambda>c'. name c' = name c) post = []"
    by (auto simp add: filter_empty_conv image_iff)
  then have "last (filter (\<lambda>c'. name c' = name c) (pre @ c # post)) = c"
    by simp
  with lookup_recorded [of c "pre @ c # post" grades] show ?thesis
    by simp
qed

lemma mean_bounds:
  fixes xs :: "real list"
  assumes "xs \<noteq> []" and "\<forall>x\<in>set xs. 0 \<le> x \<and> x \<le> 10"
  shows "0 \<le> sum_list xs / real (length xs) \<and> sum_list xs / real (length xs) \<le> 10"
proof -
  have "0 \<le> sum_list xs \<and> sum_list xs \<le> 10 * real (length xs)"
    using assms(2) by (induction xs) (auto simp add: algebra_simps)
  moreover have "0 < real (length xs)" using assms(1) by simp
  ultimately show ?thesis by (simp add: divide_le_eq)
qed

subsection \<open>Same category subsets, same run\<close>

lemma loop_body_cong:
  assumes "c_grades grades c = c_grades grades' c"
  shows "loop_body grades c s = loop_body grades' c s"
  unfolding loop_body_def assms by (rule refl)

lemma loop_cong:
  "\<forall>c\<in>set cats. c_grades grades c = c_grades grades' c \<Longrightarrow>
   loop grades cats s = loop grades' cats s"
proof (induction cats arbitrary: s)
  case Nil
  show ?case by simp
next
  case (Cons c cats)
  have b: "loop_body grades c s = loop_body grades' c s"
    by (rule loop_body_cong) (use Cons.prems in simp)
  have ih: "loop grades cats s' = loop grades' cats s'" for s'
    by (rule Cons.IH) (use Cons.prems in simp)
  show ?case by (simp add: b ih split: sum.split)
qed

subsection \<open>Sums over a permutation\<close>

lemma sum_list_map_mset_cong:
  fixes f :: "'a \<Rightarrow> 'b::comm_monoid_add"
  shows "mset xs = mset ys \<Longrightarrow> sum_list (map f xs) = sum_list (map f ys)"
proof -
  assume "mset xs = mset ys"
  then have "sum_mset (image_mset f (mset xs)) = sum_mset (image_mset f (mset ys))"
    by simp
  then show ?thesis by (simp only: mset_map [symmetric] sum_mset_sum_list)
qed

lemma graded_mset:
  "mset cats = mset cats' \<Longrightarrow> mset (graded grades cats) = mset (graded grades cats')"
  by (simp add: graded_def)

lemma weight_sum_graded_perm:
  "mset cats = mset cats' \<Longrightarrow>
   weight_sum (graded grades cats) = weight_sum (graded grades cats')"
  unfolding weight_sum_def by (rule sum_list_map_mset_cong) (rule graded_mset)

lemma set_recorded_distinct:
  assumes "distinct (map name cats)"
  shows "set (recorded grades cats []) = (\<lambda>c. (name c, category_entry grades c)) ` set cats"
proof -
  let ?ps = "rev (map (\<lambda>c. (name c, category_entry grades c)) cats)"
  have d1: "distinct (map fst (recorded grades cats []))"
    by (simp add: distinct_recorded)
  have "map fst ?ps = rev (map name cats)"
    by (simp add: rev_map comp_def)
  with assms have d2: "distinct (map fst ?ps)" by simp
  have "map_of (recorded grades cats []) = map_of ?ps"
    by (simp add: map_of_recorded)
  with d1 d2 have "set (recorded grades cats []) = set ?ps"
    by (simp add: map_of_inject_set)
  then show ?thesis by simp
qed

subsection \<open>Bounds\<close>

lemma category_mean_bounds:
  assumes "\<forall>g\<in>set grades. \<forall>x. grade g = Some x \<longrightarrow> 0 \<le> x \<and> x \<le> 10"
    and "c_grades grades c \<noteq> []"
  shows "0 \<le> category_mean grades c \<and> category_mean grades c \<le> 10"
proof -
  have "\<forall>x\<in>set (c_grades grades c). 0 \<le> x \<and> x \<le> 10"
  proof
    fix x assume "x \<in> set (c_grades grades c)"
    then obtain g where g: "g \<in> set grades" "grade g \<noteq> None" "x = the (grade g)"
      by (auto simp add: c_grades_def)
    then have "grade g = Some x" by simp
    with assms(1) g(1) show "0 \<le> x \<and> x \<le> 10" by blast
  qed
  with assms(2) show ?thesis
    unfolding category_mean_def by (rule mean_bounds)
qed

lemma weighted_score_bounds:
  assumes "\<forall>g\<in>set grades. \<forall>x. grade g = Some x \<longrightarrow> 0 \<le> x \<and> x \<le> 10"
    and "\<forall>c\<in>set cats. 0 \<le> weight c"
  shows "0 \<le> weighted_score grades cats
       \<and> weighted_score grades cats \<le> 10 * real_of_int (weight_sum (graded grades cats))"
  using assms(2)
proof (induction cats)
  case Nil
  show ?case by (simp add: weighted_score_def graded_def weight_sum_def)
next
  case (Cons c cats)
  then have ih: "0 \<le> weighted_score grades cats
       \<and> weighted_score grades cats \<le> 10 * real_of_int (weight_sum (graded grades cats))"
    by simp
  show ?case
  proof (cases "c_grades grades c = []")
    case True
    then have "weighted_score grades (c # cats) = weighted_score grades cats"
      and "weight_sum (graded grades (c # cats)) = weight_sum (graded grades cats)"
      by (simp_all add: weighted_score_def graded_def)
    with ih show ?thesis by (simp only:)
  next
    case False
    from category_mean_bounds [OF assms(1) False]
    have m: "0 \<le> category_mean grades c" "category_mean grades c \<le> 10" by simp_all
    from Cons.prems have w: "0 \<le> real_of_int (weight c)" by simp
    from m w have p1: "0 \<le> category_mean grades c * real_of_int (weight c)" by simp
    from m w have p2: "category_mean grades c * real_of_int (weight c) \<le> 10 * real_of_int (weight c)"
      by (simp add: mult_right_mono)
    from False have e1: "weighted_score grades (c # cats) =
        category_mean grades c * real_of_int (weight c) + weighted_score grades cats"
      by (simp add: weighted_score_def graded_def)
    from False have "weight_sum (graded grades (c # cats)) =
        weight c + weight_sum (graded grades cats)"
      by (simp add: weight_sum_def graded_def)
    then have e2: "10 * real_of_int (weight_sum (graded grades (c # cats))) =
        10 * real_of_int (weight c) + 10 * real_of_int (weight_sum (graded grades cats))"
      by simp
    from ih p1 p2 show ?thesis unfolding e1 e2 by linarith
  qed
qed

subsection \<open>The loop over the periods\<close>



lemma upto_1_2: "[1 .. 2] = [1, 2 :: int]"
  by (simp add: upto.simps)


subsection \<open>Terms of the score, rounding of the cell\<close>

lemma foldl_plus_sum_list:
  fixes a :: real
  shows "foldl (+) a xs = a + sum_list xs"
  by (induction xs arbitrary: a) simp_all

lemma weighted_score_terms:
  "weighted_score grades cats = foldl (+) 0 (score_terms grades cats)"
  by (simp add: foldl_plus_sum_list weighted_score_def score_terms_def)

lemma score_terms_perm:
  "mset cats = mset cats' \<Longrightarrow> mset (score_terms grades cats) = mset (score_terms grades cats')"
  by (simp add: score_terms_def graded_def)




section \<open>The claims\<close>

text \<open>
  C1. For every non-empty list of categories whose weights sum to 100 and where every
  category has at least one matching non-null grade, the final score is the weighted mean
  of the per-category arithmetic averages: the sum over the categories of the average
  times the weight, divided by 100. In particular, for Homework (id 1, weight 40) and Exams
  (id 2, weight 60) with the grades 8 and 6 in category 1 and 9 in category 2, the result
  is the mapping Homework: 7, Exams: 9 and the final score 8.2.
\<close>

theorem calculate_average_v3_weighted_mean:
  assumes "categories \<noteq> []"
    and "weight_sum categories = 100"
    and "\<forall>c\<in>set categories. c_grades grades c \<noteq> []"
  shows "(\<exists>m. calculate_average_v3 grades categories =
            Inr ((\<Sum>c\<leftarrow>categories. category_mean grades c * real_of_int (weight c)) / 100, m))
       \<and> calculate_average_v3
           [\<lparr>grade = Some 8, category_id = Some 1, period = Some 1\<rparr>,
            \<lparr>grade = Some 6, category_id = Some 1, period = Some 1\<rparr>,
            \<lparr>grade = Some 9, category_id = Some 2, period = Some 1\<rparr>]
           [\<lparr>id' = 1, name = ''Homework'', weight = 40\<rparr>,
            \<lparr>id' = 2, name = ''Exams'', weight = 60\<rparr>]
         = Inr (82 / 10, [(''Homework'', Some 7), (''Exams'', Some 9)])"
proof
  from assms(3) have g: "graded grades categories = categories"
    by (simp add: graded_def)
  show "\<exists>m. calculate_average_v3 grades categories =
            Inr ((\<Sum>c\<leftarrow>categories. category_mean grades c * real_of_int (weight c)) / 100, m)"
    using assms(1,2) by (simp add: calculate_average_v3_categories g weighted_score_def)
next
  show "calculate_average_v3
           [\<lparr>grade = Some 8, category_id = Some 1, period = Some 1\<rparr>,
            \<lparr>grade = Some 6, category_id = Some 1, period = Some 1\<rparr>,
            \<lparr>grade = Some 9, category_id = Some 2, period = Some 1\<rparr>]
           [\<lparr>id' = 1, name = ''Homework'', weight = 40\<rparr>,
            \<lparr>id' = 2, name = ''Exams'', weight = 60\<rparr>]
         = Inr (82 / 10, [(''Homework'', Some 7), (''Exams'', Some 9)])"
    by (simp add: calculate_average_v3_def loop_body_def c_grades_def py_truediv_def)
qed

theorem calculate_average_v3_weighted_mean_witness:
  "[\<lparr>id' = 1, name = ''TPs'', weight = 50\<rparr>, \<lparr>id' = 2, name = ''Orales'', weight = 50\<rparr>] \<noteq> []
   \<and> weight_sum [\<lparr>id' = 1, name = ''TPs'', weight = 50\<rparr>,
                  \<lparr>id' = 2, name = ''Orales'', weight = 50\<rparr>] = 100
   \<and> c_grades [\<lparr>grade = Some 4, category_id = Some 1, period = Some 1\<rparr>,
                \<lparr>grade = None, category_id = Some 1, period = Some 1\<rparr>,
                \<lparr>grade = Some 10, category_id = Some 2, period = Some 2\<rparr>]
        \<lparr>id' = 1, name = ''TPs'', weight = 50\<rparr> = [4]
   \<and> c_grades [\<lparr>grade = Some 4, category_id = Some 1, period = Some 1\<rparr>,
                \<lparr>grade = None, category_id = Some 1, period = Some 1\<rparr>,
                \<lparr>grade = Some 10, category_id = Some 2, period = Some 2\<rparr>]
        \<lparr>id' = 2, name = ''Orales'', weight = 50\<rparr> = [10]
   \<and> (\<exists>m. calculate_average_v3
              [\<lparr>grade = Some 4, category_id = Some 1, period = Some 1\<rparr>,
               \<lparr>grade = None, category_id = Some 1, period = Some 1\<rparr>,
               \<lparr>grade = Some 10, category_id = Some 2, period = Some 2\<rparr>]
              [\<lparr>id' = 1, name = ''TPs'', weight = 50\<rparr>,
               \<lparr>id' = 2, name = ''Orales'', weight = 50\<rparr>]
            = Inr ((4 * 50 + 10 * 50) / 100, m))"
proof -
  let ?C = "[\<lparr>id' = 1, name = ''TPs'', weight = 50\<rparr>, \<lparr>id' = 2, name = ''Orales'', weight = 50\<rparr>]"
  let ?G = "[\<lparr>grade = Some 4, category_id = Some 1, period = Some 1\<rparr>,
             \<lparr>grade = None, category_id = Some 1, period = Some 1\<rparr>,
             \<lparr>grade = Some 10, category_id = Some 2, period = Some 2\<rparr>]"
  have h1: "?C \<noteq> []" by simp
  have h2: "weight_sum ?C = 100" by (simp add: weight_sum_def)
  have h3: "\<forall>c\<in>set ?C. c_grades ?G c \<noteq> []" by (simp add: c_grades_def)
  from calculate_average_v3_weighted_mean [OF h1 h2 h3] h1 h2 show ?thesis
    by (simp add: category_mean_def c_grades_def)
qed

text \<open>
  C3. With an empty list of categories the result is the plain arithmetic mean of all
  non-null grades of the grades list, together with an empty mapping; when the grades list
  has no non-null grade (it may be empty), the result is 0 and an empty mapping.
\<close>

theorem calculate_average_v3_no_categories:
  "calculate_average_v3 grades [] =
     Inr (if List.map_filter grade grades = [] then 0
          else sum_list (List.map_filter grade grades) /
               real (length (List.map_filter grade grades)), [])"
proof -
  have "valid_grades grades = List.map_filter grade grades"
    by (simp add: valid_grades_def map_filter_def comp_def)
  then show ?thesis by (simp add: calculate_average_v3_empty)
qed

theorem calculate_average_v3_no_categories_witness:
  "calculate_average_v3
     [\<lparr>grade = Some 7, category_id = Some 1, period = Some 1\<rparr>,
      \<lparr>grade = None, category_id = None, period = Some 1\<rparr>,
      \<lparr>grade = Some 10, category_id = None, period = None\<rparr>] [] = Inr (17 / 2, [])
   \<and> calculate_average_v3 [\<lparr>grade = None, category_id = Some 1, period = Some 1\<rparr>] []
       = Inr (0, [])
   \<and> calculate_average_v3 [] [] = Inr (0, [])"
  using calculate_average_v3_no_categories
          [of "[\<lparr>grade = Some 7, category_id = Some 1, period = Some 1\<rparr>,
                \<lparr>grade = None, category_id = None, period = Some 1\<rparr>,
                \<lparr>grade = Some 10, category_id = None, period = None\<rparr>]"]
        calculate_average_v3_no_categories
          [of "[\<lparr>grade = None, category_id = Some 1, period = Some 1\<rparr>]"]
        calculate_average_v3_no_categories [of "[]"]
  by (simp add: map_filter_def)

text \<open>
  C4. For every non-empty list of categories in which no category has a matching non-null
  grade, the result is a value, not an error: the final score is 0, the mapping has exactly
  the categories' names as keys, and every entry of the mapping is the no-data marker.
\<close>

theorem calculate_average_v3_no_data:
  assumes "categories \<noteq> []"
    and "\<forall>c\<in>set categories. c_grades grades c = []"
  shows "\<exists>m. calculate_average_v3 grades categories = Inr (0, m)
           \<and> fst ` set m = name ` set categories
           \<and> (\<forall>e\<in>set m. snd e = None)"
proof -
  from assms(2) have g: "graded grades categories = []"
    by (simp add: graded_def filter_empty_conv)
  have r: "calculate_average_v3 grades categories = Inr (0, recorded grades categories [])"
    using assms(1) by (simp add: calculate_average_v3_categories g weight_sum_def)
  have k: "fst ` set (recorded grades categories []) = name ` set categories"
    by (simp add: keys_recorded)
  have "\<forall>e\<in>set (recorded grades categories []). snd e = None"
  proof
    fix e assume "e \<in> set (recorded grades categories [])"
    with set_recorded_subset [of grades categories "[]"]
    obtain c where "c \<in> set categories" and "e = (name c, category_entry grades c)"
      by auto
    with assms(2) show "snd e = None" by (simp add: category_entry_def)
  qed
  with r k show ?thesis by simp
qed

theorem calculate_average_v3_no_data_witness:
  "[\<lparr>id' = 1, name = ''Homework'', weight = 40\<rparr>, \<lparr>id' = 2, name = ''Exams'', weight = 60\<rparr>] \<noteq> []
   \<and> c_grades [\<lparr>grade = None, category_id = Some 1, period = Some 1\<rparr>,
                \<lparr>grade = Some 9, category_id = Some 3, period = Some 1\<rparr>]
        \<lparr>id' = 1, name = ''Homework'', weight = 40\<rparr> = []
   \<and> c_grades [\<lparr>grade = None, category_id = Some 1, period = Some 1\<rparr>,
                \<lparr>grade = Some 9, category_id = Some 3, period = Some 1\<rparr>]
        \<lparr>id' = 2, name = ''Exams'', weight = 60\<rparr> = []
   \<and> calculate_average_v3
         [\<lparr>grade = None, category_id = Some 1, period = Some 1\<rparr>,
          \<lparr>grade = Some 9, category_id = Some 3, period = Some 1\<rparr>]
         [\<lparr>id' = 1, name = ''Homework'', weight = 40\<rparr>,
          \<lparr>id' = 2, name = ''Exams'', weight = 60\<rparr>]
       = Inr (0, [(''Homework'', None), (''Exams'', None)])"
proof -
  let ?C = "[\<lparr>id' = 1, name = ''Homework'', weight = 40\<rparr>,
             \<lparr>id' = 2, name = ''Exams'', weight = 60\<rparr>]"
  let ?G = "[\<lparr>grade = None, category_id = Some 1, period = Some 1\<rparr>,
             \<lparr>grade = Some 9, category_id = Some 3, period = Some 1\<rparr>]"
  have h1: "?C \<noteq> []" by simp
  have h2: "\<forall>c\<in>set ?C. c_grades ?G c = []" by (simp add: c_grades_def)
  have "calculate_average_v3 ?G ?C = Inr (0, [(''Homework'', None), (''Exams'', None)])"
    by (simp add: calculate_average_v3_def loop_body_def c_grades_def)
  with calculate_average_v3_no_data [OF h1 h2] h1 h2 show ?thesis
    by (simp add: c_grades_def)
qed

text \<open>
  C7. The calculator is total: for every grades list and every categories list, whatever
  the grades (null or not) and the weights (negative, or not summing to 100), it returns a
  final score and a mapping and never the division error; each loop step returns too.
\<close>

theorem calculate_average_v3_total:
  "(\<exists>final_score m. calculate_average_v3 grades categories = Inr (final_score, m))
   \<and> (\<exists>s'. loop_body grades cat s = Inr s')"
proof (cases "categories = []")
  case True
  then show ?thesis by (simp add: calculate_average_v3_empty loop_body_eq)
next
  case False
  then show ?thesis by (simp add: calculate_average_v3_categories loop_body_eq)
qed

theorem calculate_average_v3_total_witness:
  "calculate_average_v3
     [\<lparr>grade = Some 8, category_id = Some 1, period = Some 1\<rparr>,
      \<lparr>grade = Some 5, category_id = Some 2, period = None\<rparr>]
     [\<lparr>id' = 1, name = ''Homework'', weight = - 40\<rparr>,
      \<lparr>id' = 2, name = ''Exams'', weight = 30\<rparr>]
   = Inr (0, [(''Homework'', Some 8), (''Exams'', Some 5)])"
proof -
  let ?G = "[\<lparr>grade = Some 8, category_id = Some 1, period = Some 1\<rparr>,
             \<lparr>grade = Some 5, category_id = Some 2, period = None\<rparr>]"
  let ?C = "[\<lparr>id' = 1, name = ''Homework'', weight = - 40\<rparr>,
             \<lparr>id' = 2, name = ''Exams'', weight = 30\<rparr>]"
  from calculate_average_v3_total [of ?G ?C]
  obtain f m where "calculate_average_v3 ?G ?C = Inr (f, m)" by blast
  moreover have "calculate_average_v3 ?G ?C = Inr (0, [(''Homework'', Some 8), (''Exams'', Some 5)])"
    by (simp add: calculate_average_v3_def loop_body_def c_grades_def py_truediv_def)
  ultimately show ?thesis by simp
qed

text \<open>
  C9. When every non-null grade lies between 0 and 10 and every category weight is
  non-negative, the final score lies between 0 and 10, and so does every value of the
  mapping that is not the no-data marker.
\<close>

theorem calculate_average_v3_bounds:
  assumes "\<forall>g\<in>set grades. \<forall>x. grade g = Some x \<longrightarrow> 0 \<le> x \<and> x \<le> 10"
    and "\<forall>c\<in>set categories. 0 \<le> weight c"
  shows "\<exists>final_score m. calculate_average_v3 grades categories = Inr (final_score, m)
           \<and> 0 \<le> final_score \<and> final_score \<le> 10
           \<and> (\<forall>e\<in>set m. \<forall>x. snd e = Some x \<longrightarrow> 0 \<le> x \<and> x \<le> 10)"
proof (cases "categories = []")
  case True
  let ?vg = "valid_grades grades"
  have b: "\<forall>x\<in>set ?vg. 0 \<le> x \<and> x \<le> 10"
  proof
    fix x assume "x \<in> set ?vg"
    then obtain g where g: "g \<in> set grades" "grade g \<noteq> None" "x = the (grade g)"
      by (auto simp add: valid_grades_def)
    then have "grade g = Some x" by simp
    with assms(1) g(1) show "0 \<le> x \<and> x \<le> 10" by blast
  qed
  show ?thesis
  proof (cases "?vg = []")
    case True
    with \<open>categories = []\<close> show ?thesis by (simp add: calculate_average_v3_empty)
  next
    case False
    from mean_bounds [OF False b] False \<open>categories = []\<close> show ?thesis
      by (simp add: calculate_average_v3_empty)
  qed
next
  case False
  let ?W = "weight_sum (graded grades categories)"
  let ?S = "weighted_score grades categories"
  let ?f = "if 0 < ?W then ?S / real_of_int ?W else 0"
  have r: "calculate_average_v3 grades categories = Inr (?f, recorded grades categories [])"
    using False by (simp add: calculate_average_v3_categories)
  from weighted_score_bounds [OF assms]
  have s: "0 \<le> ?S" "?S \<le> 10 * real_of_int ?W" by simp_all
  have f: "0 \<le> ?f \<and> ?f \<le> 10"
  proof (cases "0 < ?W")
    case True
    then have "0 < real_of_int ?W" by simp
    with s True show ?thesis by (simp add: divide_le_eq)
  next
    case False
    then show ?thesis by simp
  qed
  have e: "\<forall>e\<in>set (recorded grades categories []). \<forall>x. snd e = Some x \<longrightarrow> 0 \<le> x \<and> x \<le> 10"
  proof (intro ballI allI impI)
    fix e x assume "e \<in> set (recorded grades categories [])" and x: "snd e = Some x"
    with set_recorded_subset [of grades categories "[]"]
    obtain c where "e = (name c, category_entry grades c)"
      by auto
    with x have "c_grades grades c \<noteq> []" and "x = category_mean grades c"
      by (simp_all add: category_entry_def split: if_splits)
    with category_mean_bounds [OF assms(1), of c] show "0 \<le> x \<and> x \<le> 10"
      by simp
  qed
  from r f e show ?thesis by blast
qed

theorem calculate_average_v3_bounds_witness:
  "(0::int) \<le> weight \<lparr>id' = 1, name = ''Homework'', weight = 0\<rparr>
   \<and> (0::int) \<le> weight \<lparr>id' = 2, name = ''Exams'', weight = 60\<rparr>
   \<and> (\<exists>final_score m.
         calculate_average_v3
           [\<lparr>grade = Some 10, category_id = Some 1, period = Some 1\<rparr>,
            \<lparr>grade = Some 0, category_id = Some 2, period = Some 1\<rparr>,
            \<lparr>grade = None, category_id = Some 2, period = Some 1\<rparr>]
           [\<lparr>id' = 1, name = ''Homework'', weight = 0\<rparr>,
            \<lparr>id' = 2, name = ''Exams'', weight = 60\<rparr>] = Inr (final_score, m)
         \<and> 0 \<le> final_score \<and> final_score \<le> 10
         \<and> (\<forall>e\<in>set m. \<forall>x. snd e = Some x \<longrightarrow> 0 \<le> x \<and> x \<le> 10))"
proof -
  let ?G = "[\<lparr>grade = Some 10, category_id = Some 1, period = Some 1\<rparr>,
             \<lparr>grade = Some 0, category_id = Some 2, period = Some 1\<rparr>,
             \<lparr>grade = None, category_id = Some 2, period = Some 1\<rparr>]"
  let ?C = "[\<lparr>id' = 1, name = ''Homework'', weight = 0\<rparr>,
             \<lparr>id' = 2, name = ''Exams'', weight = 60\<rparr>]"
  have h1: "\<forall>g\<in>set ?G. \<forall>x. grade g = Some x \<longrightarrow> 0 \<le> x \<and> x \<le> 10" by simp
  have h2: "\<forall>c\<in>set ?C. 0 \<le> weight c" by simp
  from calculate_average_v3_bounds [OF h1 h2] show ?thesis by simp
qed

text \<open>
  C5, as amended. Appending an orphan grade record (one whose category_id is the id of no
  category of the list) to the grades list leaves the final score and the mapping
  unchanged whenever the list of categories is non-empty, and also for an empty list of
  categories when the orphan's grade is null. (With no categories the fallback averages
  every non-null grade, the orphan's included.)
\<close>

theorem calculate_average_v3_orphan:
  assumes "\<forall>c\<in>set categories. category_id g \<noteq> Some (id' c)"
    and "categories \<noteq> [] \<or> grade g = None"
  shows "calculate_average_v3 (grades @ [g]) categories = calculate_average_v3 grades categories"
proof (cases "categories = []")
  case True
  with assms(2) have "grade g = None" by simp
  then have "valid_grades (grades @ [g]) = valid_grades grades"
    by (simp add: valid_grades_def)
  with True show ?thesis by (simp add: calculate_average_v3_def)
next
  case False
  have "\<forall>c\<in>set categories. c_grades (grades @ [g]) c = c_grades grades c"
    using assms(1) by (simp add: c_grades_def)
  then have "loop (grades @ [g]) categories s = loop grades categories s" for s
    by (rule loop_cong)
  with False show ?thesis by (simp add: calculate_average_v3_def)
qed

theorem calculate_average_v3_orphan_witness:
  "category_id \<lparr>grade = Some 2, category_id = Some 7, period = Some 1\<rparr>
     \<noteq> Some (id' \<lparr>id' = 1, name = ''Homework'', weight = 40\<rparr>)
   \<and> category_id \<lparr>grade = Some 2, category_id = Some 7, period = Some 1\<rparr>
     \<noteq> Some (id' \<lparr>id' = 2, name = ''Exams'', weight = 60\<rparr>)
   \<and> [\<lparr>id' = 1, name = ''Homework'', weight = 40\<rparr>,
       \<lparr>id' = 2, name = ''Exams'', weight = 60\<rparr>] \<noteq> []
   \<and> calculate_average_v3
         ([\<lparr>grade = Some 8, category_id = Some 1, period = Some 1\<rparr>]
            @ [\<lparr>grade = Some 2, category_id = Some 7, period = Some 1\<rparr>])
         [\<lparr>id' = 1, name = ''Homework'', weight = 40\<rparr>,
          \<lparr>id' = 2, name = ''Exams'', weight = 60\<rparr>]
       = Inr (8, [(''Homework'', Some 8), (''Exams'', None)])"
proof -
  let ?C = "[\<lparr>id' = 1, name = ''Homework'', weight = 40\<rparr>,
             \<lparr>id' = 2, name = ''Exams'', weight = 60\<rparr>]"
  let ?g = "\<lparr>grade = Some 2, category_id = Some 7, period = Some 1\<rparr>"
  let ?G = "[\<lparr>grade = Some 8, category_id = Some 1, period = Some 1\<rparr>]"
  have h1: "\<forall>c\<in>set ?C. category_id ?g \<noteq> Some (id' c)" by simp
  have h2: "?C \<noteq> [] \<or> grade ?g = None" by simp
  have "calculate_average_v3 ?G ?C = Inr (8, [(''Homework'', Some 8), (''Exams'', None)])"
    by (simp add: calculate_average_v3_def loop_body_def c_grades_def py_truediv_def)
  with calculate_average_v3_orphan [OF h1 h2, of ?G] show ?thesis
    by simp
qed

text \<open>
  C5 as stated fails for an empty list of categories: every grade record is then an
  orphan, and appending one with the grade 8 to the empty grades list changes the final
  score from 0 to 8.
\<close>

theorem calculate_average_v3_orphan_counterexample:
  "calculate_average_v3 [] [] = Inr (0, [])
   \<and> calculate_average_v3 ([] @ [\<lparr>grade = Some 8, category_id = None, period = Some 1\<rparr>]) []
       = Inr (8, [])"
  by (simp add: calculate_average_v3_def valid_grades_def py_truediv_def)

text \<open>
  C2, as amended. For every non-empty list of categories, score and weight are accumulated
  only over the categories that have at least one matching non-null grade, and the final
  score is that score divided by the sum of the weights of only those categories (0 when
  this sum is not positive). A loop step for a category with no matching non-null grade
  assigns the no-data marker to the category's name and leaves score and weight_used as
  they are; in the returned mapping the name of such a category is mapped to the no-data
  marker provided no later category of the list has the same name. In particular, with
  Homework (weight 40) and Exams (weight 60) and the single grade 8 in Homework, the result
  is Homework: 8, Exams: none and the final score 8.
\<close>

theorem calculate_average_v3_partial_data:
  assumes "categories \<noteq> []"
  shows "(\<exists>m. calculate_average_v3 grades categories =
              Inr (if 0 < weight_sum (graded grades categories)
                   then (\<Sum>c\<leftarrow>graded grades categories.
                           category_mean grades c * real_of_int (weight c)) /
                        real_of_int (weight_sum (graded grades categories))
                   else 0, m)
            \<and> (\<forall>pre c post. categories = pre @ c # post \<and> c_grades grades c = []
                   \<and> name c \<notin> name ` set post \<longrightarrow> map_of m (name c) = Some None))
       \<and> (\<forall>c s. c_grades grades c = [] \<longrightarrow>
              (\<exists>s'. loop_body grades c s = Inr s'
                 \<and> map_of (cat_averages s') (name c) = Some None
                 \<and> calculated_score s' = calculated_score s
                 \<and> total_weight_used s' = total_weight_used s))
       \<and> calculate_average_v3
           [\<lparr>grade = Some 8, category_id = Some 1, period = Some 1\<rparr>]
           [\<lparr>id' = 1, name = ''Homework'', weight = 40\<rparr>,
            \<lparr>id' = 2, name = ''Exams'', weight = 60\<rparr>]
         = Inr (8, [(''Homework'', Some 8), (''Exams'', None)])"
proof (intro conjI)
  have l: "\<forall>pre c post. categories = pre @ c # post \<and> c_grades grades c = []
          \<and> name c \<notin> name ` set post \<longrightarrow>
        map_of (recorded grades categories []) (name c) = Some None"
  proof (intro allI impI)
    fix pre c post
    assume a: "categories = pre @ c # post \<and> c_grades grades c = []
               \<and> name c \<notin> name ` set post"
    then have "map_of (recorded grades (pre @ c # post) []) (name c)
               = Some (category_entry grades c)"
      by (simp add: lookup_recorded_last)
    with a show "map_of (recorded grades categories []) (name c) = Some None"
      by (simp add: category_entry_def)
  qed
  have r: "calculate_average_v3 grades categories =
              Inr (if 0 < weight_sum (graded grades categories)
                   then (\<Sum>c\<leftarrow>graded grades categories.
                           category_mean grades c * real_of_int (weight c)) /
                        real_of_int (weight_sum (graded grades categories))
                   else 0, recorded grades categories [])"
    using assms by (simp add: calculate_average_v3_categories weighted_score_def)
  from r l show "\<exists>m. calculate_average_v3 grades categories =
              Inr (if 0 < weight_sum (graded grades categories)
                   then (\<Sum>c\<leftarrow>graded grades categories.
                           category_mean grades c * real_of_int (weight c)) /
                        real_of_int (weight_sum (graded grades categories))
                   else 0, m)
            \<and> (\<forall>pre c post. categories = pre @ c # post \<and> c_grades grades c = []
                   \<and> name c \<notin> name ` set post \<longrightarrow> map_of m (name c) = Some None)"
    by blast
next
  show "\<forall>c s. c_grades grades c = [] \<longrightarrow>
              (\<exists>s'. loop_body grades c s = Inr s'
                 \<and> map_of (cat_averages s') (name c) = Some None
                 \<and> calculated_score s' = calculated_score s
                 \<and> total_weight_used s' = total_weight_used s)"
    by (simp add: loop_body_def update_conv')
next
  show "calculate_average_v3
           [\<lparr>grade = Some 8, category_id = Some 1, period = Some 1\<rparr>]
           [\<lparr>id' = 1, name = ''Homework'', weight = 40\<rparr>,
            \<lparr>id' = 2, name = ''Exams'', weight = 60\<rparr>]
         = Inr (8, [(''Homework'', Some 8), (''Exams'', None)])"
    by (simp add: calculate_average_v3_def loop_body_def c_grades_def py_truediv_def)
qed

theorem calculate_average_v3_partial_data_witness:
  "[\<lparr>id' = 1, name = ''X'', weight = 40\<rparr>, \<lparr>id' = 2, name = ''Y'', weight = 60\<rparr>,
    \<lparr>id' = 3, name = ''X'', weight = 20\<rparr>] \<noteq> []
   \<and> c_grades [\<lparr>grade = Some 8, category_id = Some 1, period = Some 1\<rparr>]
        \<lparr>id' = 3, name = ''X'', weight = 20\<rparr> = []
   \<and> name \<lparr>id' = 3, name = ''X'', weight = 20\<rparr> \<notin> name ` set []
   \<and> (\<exists>m. calculate_average_v3 [\<lparr>grade = Some 8, category_id = Some 1, period = Some 1\<rparr>]
              [\<lparr>id' = 1, name = ''X'', weight = 40\<rparr>, \<lparr>id' = 2, name = ''Y'', weight = 60\<rparr>,
               \<lparr>id' = 3, name = ''X'', weight = 20\<rparr>] = Inr (8, m)
          \<and> map_of m ''X'' = Some None)"
proof -
  let ?G = "[\<lparr>grade = Some 8, category_id = Some 1, period = Some 1\<rparr>]"
  let ?c = "\<lparr>id' = 3, name = ''X'', weight = 20\<rparr>"
  let ?pre = "[\<lparr>id' = 1, name = ''X'', weight = 40\<rparr>, \<lparr>id' = 2, name = ''Y'', weight = 60\<rparr>]"
  have h1: "?pre @ [?c] \<noteq> []" by simp
  have h2: "c_grades ?G ?c = []" by (simp add: c_grades_def)
  have h3: "name ?c \<notin> name ` set []" by simp
  from calculate_average_v3_partial_data [OF h1, of ?G]
  obtain m where m: "calculate_average_v3 ?G (?pre @ [?c]) =
              Inr (if 0 < weight_sum (graded ?G (?pre @ [?c]))
                   then (\<Sum>c\<leftarrow>graded ?G (?pre @ [?c]).
                           category_mean ?G c * real_of_int (weight c)) /
                        real_of_int (weight_sum (graded ?G (?pre @ [?c])))
                   else 0, m)"
    and l: "\<forall>pre c post. ?pre @ [?c] = pre @ c # post \<and> c_grades ?G c = []
                   \<and> name c \<notin> name ` set post \<longrightarrow> map_of m (name c) = Some None"
    by blast
  from l h2 h3 have "map_of m (name ?c) = Some None" by blast
  then have x: "map_of m ''X'' = Some None" by simp
  have "graded ?G (?pre @ [?c]) = [\<lparr>id' = 1, name = ''X'', weight = 40\<rparr>]"
    by (simp add: graded_def c_grades_def)
  with m have "calculate_average_v3 ?G (?pre @ [?c]) = Inr (8, m)"
    by (simp add: weight_sum_def category_mean_def c_grades_def)
  with x h2 show ?thesis by simp
qed

text \<open>
  C2 as stated fails when a later category carries the same name: category 1 below has no
  matching grade, yet its name is mapped to 8, the average of category 2.
\<close>

theorem calculate_average_v3_partial_data_counterexample:
  "c_grades [\<lparr>grade = Some 8, category_id = Some 2, period = Some 1\<rparr>]
     \<lparr>id' = 1, name = ''X'', weight = 40\<rparr> = []
   \<and> calculate_average_v3
       [\<lparr>grade = Some 8, category_id = Some 2, period = Some 1\<rparr>]
       [\<lparr>id' = 1, name = ''X'', weight = 40\<rparr>, \<lparr>id' = 2, name = ''X'', weight = 60\<rparr>]
     = Inr (8, [(''X'', Some 8)])"
  by (simp add: calculate_average_v3_def loop_body_def c_grades_def py_truediv_def)

text \<open>
  C8, as amended. For every grades list and every permutation of a non-empty list of
  categories, the final score of either order is the sum of that order's terms (average
  times weight, one per category with grades, added in the order of the list) divided by the
  same weight_used, or 0 in both orders when weight_used is not positive; the terms of the
  two orders are the same up to their order. The mapping holds the same name-to-value
  pairs provided the categories' names are pairwise distinct. (Two categories of one name
  share one entry of the mapping, and the one that comes last in the list decides its
  value.) A permutation of the empty list of categories is empty and gives the same
  result.
\<close>

theorem calculate_average_v3_permutation:
  assumes "mset categories' = mset categories"
  shows "(categories = [] \<longrightarrow>
            calculate_average_v3 grades categories' = calculate_average_v3 grades categories)
       \<and> (categories \<noteq> [] \<longrightarrow>
            (\<exists>m m'.
               calculate_average_v3 grades categories =
                 Inr (if 0 < weight_sum (graded grades categories)
                      then foldl (+) 0 (score_terms grades categories) /
                           real_of_int (weight_sum (graded grades categories))
                      else 0, m)
             \<and> calculate_average_v3 grades categories' =
                 Inr (if 0 < weight_sum (graded grades categories)
                      then foldl (+) 0 (score_terms grades categories') /
                           real_of_int (weight_sum (graded grades categories))
                      else 0, m')
             \<and> mset (score_terms grades categories') = mset (score_terms grades categories)
             \<and> (distinct (map name categories) \<longrightarrow> set m = set m')))"
proof (intro conjI impI)
  assume "categories = []"
  with assms have "categories' = []" by simp
  with \<open>categories = []\<close>
  show "calculate_average_v3 grades categories' = calculate_average_v3 grades categories"
    by simp
next
  assume ne: "categories \<noteq> []"
  with assms have ne': "categories' \<noteq> []" by auto
  from assms have p: "mset categories = mset categories'" by simp
  have w: "weight_sum (graded grades categories') = weight_sum (graded grades categories)"
    using assms by (rule weight_sum_graded_perm)
  have t: "mset (score_terms grades categories') = mset (score_terms grades categories)"
    using assms by (rule score_terms_perm)
  have r: "calculate_average_v3 grades categories =
             Inr (if 0 < weight_sum (graded grades categories)
                  then foldl (+) 0 (score_terms grades categories) /
                       real_of_int (weight_sum (graded grades categories))
                  else 0, recorded grades categories [])"
    using ne by (simp add: calculate_average_v3_categories weighted_score_terms)
  have r': "calculate_average_v3 grades categories' =
             Inr (if 0 < weight_sum (graded grades categories)
                  then foldl (+) 0 (score_terms grades categories') /
                       real_of_int (weight_sum (graded grades categories))
                  else 0, recorded grades categories' [])"
    using ne' by (simp add: calculate_average_v3_categories weighted_score_terms w)
  have m: "distinct (map name categories) \<longrightarrow>
           set (recorded grades categories []) = set (recorded grades categories' [])"
  proof
    assume d: "distinct (map name categories)"
    from p have "mset (map name categories) = mset (map name categories')" by simp
    with d have d': "distinct (map name categories')"
      by (metis mset_eq_imp_distinct_iff)
    from p have "set categories = set categories'" by (rule mset_eq_setD)
    with d d' show "set (recorded grades categories []) = set (recorded grades categories' [])"
      by (simp add: set_recorded_distinct)
  qed
  from r r' t m show "\<exists>m m'.
               calculate_average_v3 grades categories =
                 Inr (if 0 < weight_sum (graded grades categories)
                      then foldl (+) 0 (score_terms grades categories) /
                           real_of_int (weight_sum (graded grades categories))
                      else 0, m)
             \<and> calculate_average_v3 grades categories' =
                 Inr (if 0 < weight_sum (graded grades categories)
                      then foldl (+) 0 (score_terms grades categories') /
                           real_of_int (weight_sum (graded grades categories))
                      else 0, m')
             \<and> mset (score_terms grades categories') = mset (score_terms grades categories)
             \<and> (distinct (map name categories) \<longrightarrow> set m = set m')"
    by blast
qed

theorem calculate_average_v3_permutation_witness:
  "mset [\<lparr>id' = 2, name = ''Exams'', weight = 60\<rparr>, \<lparr>id' = 1, name = ''Homework'', weight = 40\<rparr>]
     = mset [\<lparr>id' = 1, name = ''Homework'', weight = 40\<rparr>, \<lparr>id' = 2, name = ''Exams'', weight = 60\<rparr>]
   \<and> [\<lparr>id' = 1, name = ''Homework'', weight = 40\<rparr>, \<lparr>id' = 2, name = ''Exams'', weight = 60\<rparr>] \<noteq> []
   \<and> distinct (map name [\<lparr>id' = 1, name = ''Homework'', weight = 40\<rparr>,
                         \<lparr>id' = 2, name = ''Exams'', weight = 60\<rparr>])
   \<and> (\<exists>m'. calculate_average_v3
               [\<lparr>grade = Some 8, category_id = Some 1, period = Some 1\<rparr>,
                \<lparr>grade = Some 6, category_id = Some 1, period = Some 1\<rparr>,
                \<lparr>grade = Some 9, category_id = Some 2, period = Some 1\<rparr>]
               [\<lparr>id' = 2, name = ''Exams'', weight = 60\<rparr>,
                \<lparr>id' = 1, name = ''Homework'', weight = 40\<rparr>]
             = Inr (foldl (+) 0 [9 * 60, 7 * 40] / 100, m')
           \<and> set m' = {(''Homework'', Some 7), (''Exams'', Some 9)})"
proof -
  let ?H = "\<lparr>id' = 1, name = ''Homework'', weight = 40\<rparr>"
  let ?E = "\<lparr>id' = 2, name = ''Exams'', weight = 60\<rparr>"
  let ?G = "[\<lparr>grade = Some 8, category_id = Some 1, period = Some 1\<rparr>,
             \<lparr>grade = Some 6, category_id = Some 1, period = Some 1\<rparr>,
             \<lparr>grade = Some 9, category_id = Some 2, period = Some 1\<rparr>]"
  have h1: "mset [?E, ?H] = mset [?H, ?E]" by simp
  have h2: "[?H, ?E] \<noteq> []" by simp
  have h3: "distinct (map name [?H, ?E])" by simp
  have v: "calculate_average_v3 ?G [?H, ?E] =
             Inr (82 / 10, [(''Homework'', Some 7), (''Exams'', Some 9)])"
    by (simp add: calculate_average_v3_def loop_body_def c_grades_def py_truediv_def)
  have w: "weight_sum (graded ?G [?H, ?E]) = 100"
    by (simp add: weight_sum_def graded_def c_grades_def)
  have t: "score_terms ?G [?E, ?H] = [9 * 60, 7 * 40]"
    by (simp add: score_terms_def graded_def category_mean_def c_grades_def)
  from calculate_average_v3_permutation [OF h1, of ?G] h2 h3
  obtain m m' where a: "calculate_average_v3 ?G [?H, ?E] =
                 Inr (if 0 < weight_sum (graded ?G [?H, ?E])
                      then foldl (+) 0 (score_terms ?G [?H, ?E]) /
                           real_of_int (weight_sum (graded ?G [?H, ?E]))
                      else 0, m)"
    and b: "calculate_average_v3 ?G [?E, ?H] =
                 Inr (if 0 < weight_sum (graded ?G [?H, ?E])
                      then foldl (+) 0 (score_terms ?G [?E, ?H]) /
                           real_of_int (weight_sum (graded ?G [?H, ?E]))
                      else 0, m')"
    and c: "set m = set m'"
    by blast
  from a v have "m = [(''Homework'', Some 7), (''Exams'', Some 9)]" by simp
  with c have s: "set m' = {(''Homework'', Some 7), (''Exams'', Some 9)}" by auto
  from b have "calculate_average_v3 ?G [?E, ?H] = Inr (foldl (+) 0 [9 * 60, 7 * 40] / 100, m')"
    unfolding w t by simp
  with s h1 h2 h3 show ?thesis by blast
qed

text \<open>
  C8 as stated fails for categories that share a name: the two orders of the categories
  below give different mappings.
\<close>

theorem calculate_average_v3_permutation_counterexample:
  "mset [\<lparr>id' = 2, name = ''X'', weight = 60\<rparr>, \<lparr>id' = 1, name = ''X'', weight = 40\<rparr>]
     = mset [\<lparr>id' = 1, name = ''X'', weight = 40\<rparr>, \<lparr>id' = 2, name = ''X'', weight = 60\<rparr>]
   \<and> calculate_average_v3 [\<lparr>grade = Some 8, category_id = Some 1, period = Some 1\<rparr>]
       [\<lparr>id' = 1, name = ''X'', weight = 40\<rparr>, \<lparr>id' = 2, name = ''X'', weight = 60\<rparr>]
     = Inr (8, [(''X'', None)])
   \<and> calculate_average_v3 [\<lparr>grade = Some 8, category_id = Some 1, period = Some 1\<rparr>]
       [\<lparr>id' = 2, name = ''X'', weight = 60\<rparr>, \<lparr>id' = 1, name = ''X'', weight = 40\<rparr>]
     = Inr (8, [(''X'', Some 8)])"
  by (simp add: calculate_average_v3_def loop_body_def c_grades_def py_truediv_def)

text \<open>
  C10. When categories of the list share a name, the returned mapping still has one entry
  per name, and the entry of a name is the result (average or no-data marker) of the last
  category of that name in the list; the final score is computed from all the categories
  that have grades, each with its own average and weight, whatever their names. With two
  categories named X (ids 1 and 2, weights 40 and 60) and the grades 8 in the first and 6
  in the second, the mapping is X: 6 and the final score (8 * 40 + 6 * 60) / 100 = 6.8.
\<close>

theorem calculate_average_v3_duplicate_names:
  assumes "categories \<noteq> []"
  shows "(\<exists>m. calculate_average_v3 grades categories =
              Inr (if 0 < weight_sum (graded grades categories)
                   then (\<Sum>c\<leftarrow>graded grades categories.
                           category_mean grades c * real_of_int (weight c)) /
                        real_of_int (weight_sum (graded grades categories))
                   else 0, m)
            \<and> distinct (map fst m)
            \<and> (\<forall>c\<in>set categories.
                  map_of m (name c) =
                    Some (category_entry grades
                            (last (filter (\<lambda>c'. name c' = name c) categories)))))
       \<and> calculate_average_v3
           [\<lparr>grade = Some 8, category_id = Some 1, period = Some 1\<rparr>,
            \<lparr>grade = Some 6, category_id = Some 2, period = Some 1\<rparr>]
           [\<lparr>id' = 1, name = ''X'', weight = 40\<rparr>, \<lparr>id' = 2, name = ''X'', weight = 60\<rparr>]
         = Inr (68 / 10, [(''X'', Some 6)])"
proof
  have r: "calculate_average_v3 grades categories =
              Inr (if 0 < weight_sum (graded grades categories)
                   then (\<Sum>c\<leftarrow>graded grades categories.
                           category_mean grades c * real_of_int (weight c)) /
                        real_of_int (weight_sum (graded grades categories))
                   else 0, recorded grades categories [])"
    using assms by (simp add: calculate_average_v3_categories weighted_score_def)
  have d: "distinct (map fst (recorded grades categories []))"
    by (simp add: distinct_recorded)
  have l: "\<forall>c\<in>set categories.
             map_of (recorded grades categories []) (name c) =
               Some (category_entry grades
                       (last (filter (\<lambda>c'. name c' = name c) categories)))"
    by (simp add: lookup_recorded)
  from r d l show "\<exists>m. calculate_average_v3 grades categories =
              Inr (if 0 < weight_sum (graded grades categories)
                   then (\<Sum>c\<leftarrow>graded grades categories.
                           category_mean grades c * real_of_int (weight c)) /
                        real_of_int (weight_sum (graded grades categories))
                   else 0, m)
            \<and> distinct (map fst m)
            \<and> (\<forall>c\<in>set categories.
                  map_of m (name c) =
                    Some (category_entry grades
                            (last (filter (\<lambda>c'. name c' = name c) categories))))"
    by blast
next
  show "calculate_average_v3
           [\<lparr>grade = Some 8, category_id = Some 1, period = Some 1\<rparr>,
            \<lparr>grade = Some 6, category_id = Some 2, period = Some 1\<rparr>]
           [\<lparr>id' = 1, name = ''X'', weight = 40\<rparr>, \<lparr>id' = 2, name = ''X'', weight = 60\<rparr>]
         = Inr (68 / 10, [(''X'', Some 6)])"
    by (simp add: calculate_average_v3_def loop_body_def c_grades_def py_truediv_def)
qed

theorem calculate_average_v3_duplicate_names_witness:
  "[\<lparr>id' = 1, name = ''X'', weight = 40\<rparr>, \<lparr>id' = 2, name = ''X'', weight = 60\<rparr>] \<noteq> []
   \<and> \<lparr>id' = 1, name = ''X'', weight = 40\<rparr>
        \<in> set [\<lparr>id' = 1, name = ''X'', weight = 40\<rparr>, \<lparr>id' = 2, name = ''X'', weight = 60\<rparr>]
   \<and> (\<exists>m. calculate_average_v3
              [\<lparr>grade = Some 8, category_id = Some 1, period = Some 1\<rparr>]
              [\<lparr>id' = 1, name = ''X'', weight = 40\<rparr>, \<lparr>id' = 2, name = ''X'', weight = 60\<rparr>]
            = Inr (8, m)
          \<and> distinct (map fst m) \<and> map_of m ''X'' = Some None)"
proof -
  let ?A = "\<lparr>id' = 1, name = ''X'', weight = 40\<rparr>"
  let ?B = "\<lparr>id' = 2, name = ''X'', weight = 60\<rparr>"
  let ?G = "[\<lparr>grade = Some 8, category_id = Some 1, period = Some 1\<rparr>]"
  have h1: "[?A, ?B] \<noteq> []" by simp
  have h2: "?A \<in> set [?A, ?B]" by simp
  from calculate_average_v3_duplicate_names [OF h1, of ?G]
  obtain m where m: "calculate_average_v3 ?G [?A, ?B] =
              Inr (if 0 < weight_sum (graded ?G [?A, ?B])
                   then (\<Sum>c\<leftarrow>graded ?G [?A, ?B].
                           category_mean ?G c * real_of_int (weight c)) /
                        real_of_int (weight_sum (graded ?G [?A, ?B]))
                   else 0, m)"
    and d: "distinct (map fst m)"
    and l: "\<forall>c\<in>set [?A, ?B]. map_of m (name c) =
              Some (category_entry ?G (last (filter (\<lambda>c'. name c' = name c) [?A, ?B])))"
    by blast
  from l h2 have "map_of m (name ?A) =
      Some (category_entry ?G (last (filter (\<lambda>c'. name c' = name ?A) [?A, ?B])))"
    by blast
  then have x: "map_of m ''X'' = Some None"
    by (simp add: category_entry_def c_grades_def)
  have "graded ?G [?A, ?B] = [?A]"
    by (simp add: graded_def c_grades_def)
  with m have "calculate_average_v3 ?G [?A, ?B] = Inr (8, m)"
    by (simp add: weight_sum_def category_mean_def c_grades_def)
  with x d h1 h2 show ?thesis by blast
qed




text \<open>
  Near a tie the relation admits both neighbours. With the finals 5.35 (grades 5 and 5.5,
  weights 30 and 70) and 7 the mean is 6.175: the cell may be 6.17, which the floats give,
  or 6.18.
\<close>

lemma year_final_cell_near_tie:
  "year_final_cell ''semesters''
     [\<lparr>grade = Some 5, category_id = Some 1, period = Some 1\<rparr>,
      \<lparr>grade = Some (11 / 2), category_id = Some 2, period = Some 1\<rparr>,
      \<lparr>grade = Some 7, category_id = Some 1, period = Some 2\<rparr>,
      \<lparr>grade = Some 7, category_id = Some 2, period = Some 2\<rparr>]
     [\<lparr>id' = 1, name = ''Homework'', weight = 30\<rparr>,
      \<lparr>id' = 2, name = ''Exams'', weight = 70\<rparr>] (Inr (617 / 100))
   \<and> year_final_cell ''semesters''
     [\<lparr>grade = Some 5, category_id = Some 1, period = Some 1\<rparr>,
      \<lparr>grade = Some (11 / 2), category_id = Some 2, period = Some 1\<rparr>,
      \<lparr>grade = Some 7, category_id = Some 1, period = Some 2\<rparr>,
      \<lparr>grade = Some 7, category_id = Some 2, period = Some 2\<rparr>]
     [\<lparr>id' = 1, name = ''Homework'', weight = 30\<rparr>,
      \<lparr>id' = 2, name = ''Exams'', weight = 70\<rparr>] (Inr (618 / 100))"
  by (simp add: year_final_cell_def upto_1_2 p_grades_def calculate_average_v3_def
      loop_body_def c_grades_def py_truediv_def py_round2_def del: not_None_eq)

end
